theory Spec2Isabelle
  imports Complex_Main
begin

section \<open>Conventions of the embedding\<close>

text \<open>
  The trading bot is written in Python. Its floats are modelled as the type \<open>real\<close>:
  every comparison, product and quotient of the source is the same operation on reals,
  and a division whose divisor is zero is the exception \<open>ZeroDivisionError\<close>, as in
  Python, never the HOL value \<open>x / 0 = 0\<close>. A dictionary whose keys are fixed by the code
  that builds it is a record; a key that a function reads with \<open>d.get(k, default)\<close> is a
  field of option type, \<open>None\<close> standing for the absent key. A dictionary that is iterated
  is an association list in insertion order. Every method wraps its body in
  \<open>try: ... except Exception\<close>; the model computes the body in the sum type
  \<open>py_error + 'a\<close> and the method maps \<open>Inl\<close> to the value its handler returns.

  Decimal constants of the source (0.05, 0.67, 0.3) are read as the exact decimals. A
  binary float computation can land on the other side of a comparison when its exact value
  lies on the boundary, and on either side of a decimal rounding tie; the statements below
  are about values off such boundaries or are phrased so that they hold on both sides.
\<close>

datatype py_error = ZeroDivisionError | KeyError | TypeError | NameError

definition py_div :: "real \<Rightarrow> real \<Rightarrow> py_error + real" where
  "py_div a b = (if b = 0 then Inl ZeroDivisionError else Inr (a / b))"

definition dict_get :: "'a option \<Rightarrow> 'a \<Rightarrow> 'a" where
  "dict_get v d = (case v of None \<Rightarrow> d | Some x \<Rightarrow> x)"

section \<open>Risk manager (modules/risk\_manager.py)\<close>

subsection \<open>State\<close>

text \<open>
  A position is the dictionary built by \<open>add_position\<close>, which sets every key, so all
  fields are present. Times are seconds on the clock of \<open>datetime.now()\<close>.
\<close>

record position =
  pos_symbol :: string
  pos_side :: string
  pos_size :: real
  pos_price :: real
  pos_exchange_type :: string
  pos_stop_loss_price :: real
  pos_take_profit_price :: real
  pos_entry_time :: real
  pos_unrealized_pnl :: real
  pos_current_price :: real

record alert =
  alert_type :: string
  alert_symbol :: string
  alert_message :: string
  alert_timestamp :: real

record risk_manager =
  max_position_size :: real
  risk_per_trade :: real
  positions :: "(string \<times> position) list"
  risk_alerts :: "alert list"

record market_conditions =
  mc_volatility :: "real option"
  mc_regime :: "string option"
  mc_liquidity :: "string option"


subsection \<open>The alert queue\<close>

text \<open>
  \<open>emergency_stop\<close> appends one alert; the clock value is a parameter. The message is
  the reason behind a fixed Korean prefix (the words for emergency stop, a colon and a
  space), given here as the bytes of its UTF-8 encoding.
\<close>

definition emergency_stop_prefix :: string where
  "emergency_stop_prefix =
     [CHR 0xEB, CHR 0xB9, CHR 0x84, CHR 0xEC, CHR 0x83, CHR 0x81, CHR 0x20,
      CHR 0xEC, CHR 0xA0, CHR 0x95, CHR 0xEC, CHR 0xA7, CHR 0x80, CHR 0x3A, CHR 0x20]"

definition emergency_stop :: "risk_manager \<Rightarrow> string \<Rightarrow> real \<Rightarrow> risk_manager" where
  "emergency_stop rm reason now =
     rm\<lparr>risk_alerts := risk_alerts rm @
        [\<lparr>alert_type = ''emergency_stop'', alert_symbol = ''ALL'',
          alert_message = emergency_stop_prefix @ reason, alert_timestamp = now\<rparr>]\<rparr>"

text \<open>
  \<open>get_risk_alerts\<close> copies the list, clears the attribute and returns the copy. The
  model returns the copy together with the updated manager.
\<close>

definition get_risk_alerts :: "risk_manager \<Rightarrow> alert list \<times> risk_manager" where
  "get_risk_alerts rm = (let alerts = risk_alerts rm in (alerts, rm\<lparr>risk_alerts := []\<rparr>))"

subsection \<open>Adaptive position sizing\<close>



text \<open>
  \<open>_calculate_dynamic_kelly\<close>: reading \<open>market_conditions['regime']\<close> raises
  \<open>KeyError\<close> when the key is absent, and the handler returns 0.02. The average win is a
  positive constant in each branch, so the guard \<open>avg_win <= 0\<close> and the division by
  \<open>avg_win\<close> never fail; the guard is kept as written.
\<close>

definition regime_win_loss :: "string \<Rightarrow> real \<times> real" where
  "regime_win_loss regime =
     (if regime = ''trending'' then (0.18, 0.09)
      else if regime = ''volatile'' then (0.12, 0.12)
      else (0.15, 0.08))"

definition calculate_dynamic_kelly :: "string \<Rightarrow> real \<Rightarrow> market_conditions \<Rightarrow> real" where
  "calculate_dynamic_kelly symbol win_rate mc =
     (case mc_regime mc of
        None \<Rightarrow> 0.02
      | Some regime \<Rightarrow>
          (let (avg_win, avg_loss) = regime_win_loss regime in
           if avg_win \<le> 0 then 0
           else (case py_div (win_rate * avg_win - (1 - win_rate) * avg_loss) avg_win of
                   Inl e \<Rightarrow> 0.02
                 | Inr kelly_fraction \<Rightarrow> max 0 (min kelly_fraction 0.25))))"















subsection \<open>Automatic responses\<close>

text \<open>
  \<open>_reduce_risky_positions\<close> iterates over the positions in insertion order and mutates
  each losing position in place. A position whose entry price is zero makes the division
  raise; the handler ends the loop there, and the positions already reduced stay reduced.
\<close>

definition pnl_pct :: "position \<Rightarrow> py_error + real" where
  "pnl_pct p =
     (let current_price = pos_current_price p; entry_price = pos_price p in
      if pos_side p = ''buy'' then py_div (current_price - entry_price) entry_price
      else py_div (entry_price - current_price) entry_price)"

fun reduce_loop :: "real \<Rightarrow> (string \<times> position) list \<Rightarrow> (string \<times> position) list" where
  "reduce_loop reduction_ratio [] = []"
| "reduce_loop reduction_ratio ((symbol, p) # ps) =
     (case pnl_pct p of
        Inl e \<Rightarrow> (symbol, p) # ps
      | Inr v \<Rightarrow>
          (if v < - 0.05
           then (symbol, p\<lparr>pos_size := pos_size p * (1 - reduction_ratio)\<rparr>)
           else (symbol, p)) # reduce_loop reduction_ratio ps)"




section \<open>Technical analyzer (modules/technical\_analysis.py)\<close>

text \<open>
  Indicator series come from an external library and may hold anything. A value read from
  a series is a Python number (or a numpy float64, which is a subclass of \<open>float\<close>), a
  numpy scalar of another type (int64, float32: it compares as a number but is not an
  instance of \<open>int\<close> or \<open>float\<close>), the float NaN, \<open>None\<close>, or some other object that
  is not a number and cannot be compared with one.
\<close>

datatype pyval = Num real | NpNum real | NaN | PyNone | Other

fun isna :: "pyval \<Rightarrow> bool" where
  "isna NaN = True"
| "isna PyNone = True"
| "isna v = False"

fun isinstance_number :: "pyval \<Rightarrow> bool" where
  "isinstance_number (Num x) = True"
| "isinstance_number NaN = True"
| "isinstance_number v = False"

text \<open>
  Ordering comparisons: every comparison with NaN is false; a comparison of a number with
  \<open>None\<close> or with an unordered object raises \<open>TypeError\<close>.
\<close>

fun py_cmp :: "(real \<Rightarrow> real \<Rightarrow> bool) \<Rightarrow> pyval \<Rightarrow> pyval \<Rightarrow> py_error + bool" where
  "py_cmp rel (Num a) (Num b) = Inr (rel a b)"
| "py_cmp rel (Num a) (NpNum b) = Inr (rel a b)"
| "py_cmp rel (NpNum a) (Num b) = Inr (rel a b)"
| "py_cmp rel (NpNum a) (NpNum b) = Inr (rel a b)"
| "py_cmp rel (Num a) NaN = Inr False"
| "py_cmp rel (NpNum a) NaN = Inr False"
| "py_cmp rel NaN (Num b) = Inr False"
| "py_cmp rel NaN (NpNum b) = Inr False"
| "py_cmp rel NaN NaN = Inr False"
| "py_cmp rel a b = Inl TypeError"

text \<open>\<open>a and b\<close>: the right operand is evaluated only when the left one is true.\<close>

definition py_and :: "py_error + bool \<Rightarrow> py_error + bool \<Rightarrow> py_error + bool" where
  "py_and a b = (case a of Inl e \<Rightarrow> Inl e | Inr x \<Rightarrow> if x then b else Inr False)"

record macd_ind =
  macd_histogram :: "pyval list option"

record bb_ind =
  bb_lower :: "pyval list option"
  bb_upper :: "pyval list option"
  bb_middle :: "pyval list option"

record stoch_ind =
  stoch_slowk :: "pyval list option"

record indicators =
  ind_rsi :: "pyval list option"
  ind_macd :: "macd_ind option"
  ind_bb :: "bb_ind option"
  ind_stoch :: "stoch_ind option"

record technical_analyzer =
  rsi_oversold :: real
  rsi_overbought :: real

definition rsi_signal_of :: "technical_analyzer \<Rightarrow> indicators \<Rightarrow> real" where
  "rsi_signal_of ta ind =
     (case ind_rsi ind of
        None \<Rightarrow> 0
      | Some rsi \<Rightarrow>
          if length rsi > 0 then
            (let v = last rsi;
                 rsi_current = (if isna v \<or> \<not> isinstance_number v then 50
                                else (case v of Num x \<Rightarrow> x | _ \<Rightarrow> 50))
             in if rsi_current < rsi_oversold ta then 1
                else if rsi_current > rsi_overbought ta then - 1
                else 0)
          else 0)"

definition macd_cross :: "pyval \<Rightarrow> pyval \<Rightarrow> py_error + real" where
  "macd_cross hist_current hist_prev =
     (if isna hist_current \<or> isna hist_prev then Inr 0
      else case py_and (py_cmp (>) hist_current (Num 0)) (py_cmp (\<le>) hist_prev (Num 0)) of
             Inl e \<Rightarrow> Inl e
           | Inr up \<Rightarrow>
               if up then Inr 1
               else (case py_and (py_cmp (<) hist_current (Num 0))
                                 (py_cmp (\<ge>) hist_prev (Num 0)) of
                       Inl e \<Rightarrow> Inl e
                     | Inr down \<Rightarrow> Inr (if down then - 1 else 0)))"

definition macd_signal_of :: "indicators \<Rightarrow> py_error + real" where
  "macd_signal_of ind =
     (case ind_macd ind of
        None \<Rightarrow> Inr 0
      | Some m \<Rightarrow>
          (case macd_histogram m of
             None \<Rightarrow> Inr 0
           | Some macd_hist \<Rightarrow>
               if length macd_hist \<ge> 2
               then macd_cross (last macd_hist) (last (butlast macd_hist))
               else Inr 0))"

definition bb_touch :: "pyval \<Rightarrow> pyval \<Rightarrow> pyval \<Rightarrow> py_error + real" where
  "bb_touch current_price upper_band lower_band =
     (if isna current_price \<or> isna upper_band \<or> isna lower_band then Inr 0
      else case py_cmp (\<le>) current_price lower_band of
             Inl e \<Rightarrow> Inl e
           | Inr low \<Rightarrow>
               if low then Inr 1
               else (case py_cmp (\<ge>) current_price upper_band of
                       Inl e \<Rightarrow> Inl e
                     | Inr high \<Rightarrow> Inr (if high then - 1 else 0)))"

definition bb_signal_of :: "indicators \<Rightarrow> py_error + real" where
  "bb_signal_of ind =
     (case ind_bb ind of
        None \<Rightarrow> Inr 0
      | Some bb_data \<Rightarrow>
          (let lower = dict_get (bb_lower bb_data) [];
               upper = dict_get (bb_upper bb_data) [];
               middle = dict_get (bb_middle bb_data) []
           in if length lower > 0 \<and> length upper > 0 \<and> length middle > 0
              then bb_touch (last middle) (last upper) (last lower)
              else Inr 0))"

definition stoch_signal_of :: "indicators \<Rightarrow> real" where
  "stoch_signal_of ind =
     (case ind_stoch ind of
        None \<Rightarrow> 0
      | Some stoch_data \<Rightarrow>
          (case stoch_slowk stoch_data of
             None \<Rightarrow> 0
           | Some ks \<Rightarrow>
               if length ks > 0 then
                 (case last ks of
                    Num slowk \<Rightarrow> if slowk < 20 then 1 else if slowk > 80 then - 1 else 0
                  | _ \<Rightarrow> 0)
               else 0))"

definition endswith :: "string \<Rightarrow> string \<Rightarrow> bool" where
  "endswith s suffix = (length suffix \<le> length s \<and> drop (length s - length suffix) s = suffix)"

fun num_value :: "pyval \<Rightarrow> real" where
  "num_value (Num x) = x"
| "num_value v = 0"

text \<open>
  The signals dictionary, in insertion order. The combined signal is the mean of the
  values under keys ending in \<open>_signal\<close> that are numbers and not NaN; the last loop
  of the method replaces every value that is NaN or not a number by 0.0.
\<close>

definition combine_signals :: "(string \<times> pyval) list \<Rightarrow> (string \<times> pyval) list" where
  "combine_signals signals =
     (let valid_signals =
            map (num_value \<circ> snd)
              (filter (\<lambda>(k, v). endswith k ''_signal'' \<and> isinstance_number v \<and> \<not> isna v) signals);
          combined = (if valid_signals \<noteq> []
                      then sum_list valid_signals / real (length valid_signals) else 0);
          signals' = signals @ [(''combined_signal'', Num combined)]
      in map (\<lambda>(k, v). (k, if isna v \<or> \<not> isinstance_number v then Num 0 else v)) signals')"

definition generate_signals_body ::
  "technical_analyzer \<Rightarrow> indicators \<Rightarrow> py_error + (string \<times> pyval) list" where
  "generate_signals_body ta ind =
     (let rsi_signal = rsi_signal_of ta ind in
      case macd_signal_of ind of
        Inl e \<Rightarrow> Inl e
      | Inr macd_signal \<Rightarrow>
          (case bb_signal_of ind of
             Inl e \<Rightarrow> Inl e
           | Inr bb_signal \<Rightarrow>
               (let stoch_signal = stoch_signal_of ind in
                Inr (combine_signals
                       [(''rsi_signal'', Num rsi_signal), (''macd_signal'', Num macd_signal),
                        (''bb_signal'', Num bb_signal), (''stoch_signal'', Num stoch_signal)]))))"

definition generate_signals :: "technical_analyzer \<Rightarrow> indicators \<Rightarrow> (string \<times> pyval) list" where
  "generate_signals ta ind =
     (case generate_signals_body ta ind of
        Inl e \<Rightarrow> [(''rsi_signal'', Num 0), (''macd_signal'', Num 0), (''bb_signal'', Num 0),
                  (''stoch_signal'', Num 0), (''combined_signal'', Num 0)]
      | Inr signals \<Rightarrow> signals)"

subsection \<open>Noise filter\<close>

record validation_data =
  signal_history :: "real list option"

text \<open>
  \<open>_apply_noise_filter\<close>: \<open>signal_history[-3:]\<close> is the last three entries, and
  \<open>len(recent_signals)\<close> is 3 once the length check has passed.
\<close>

definition apply_noise_filter :: "(string \<times> real) list \<Rightarrow> validation_data \<Rightarrow> real" where
  "apply_noise_filter signals market_data =
     (let combined_signal = dict_get (map_of signals ''combined_signal'') 0 in
      if \<bar>combined_signal\<bar> < 0.08 then 0.1
      else
        (let history = dict_get (signal_history market_data) [] in
         if length history < 3 then 0.6
         else
           (let recent_signals = drop (length history - 3) history;
                current_direction = (if combined_signal > 0 then 1 else - 1 :: int);
                consistent_count =
                  length (filter (\<lambda>historic_signal.
                                    (current_direction > 0 \<and> historic_signal > 0) \<or>
                                    (current_direction < 0 \<and> historic_signal < 0))
                                 recent_signals)
            in case py_div (real consistent_count) (real (length recent_signals)) of
                 Inl e \<Rightarrow> 0.5
               | Inr consistency_ratio \<Rightarrow>
                   if consistency_ratio \<ge> 0.67 then 0.9
                   else if consistency_ratio \<ge> 0.33 then 0.6
                   else 0.3)))"

section \<open>Hybrid portfolio strategy (modules/hybrid\_portfolio\_strategy.py)\<close>

subsection \<open>Data\<close>

text \<open>
  A value read with \<open>d.get(k, default)\<close> and then tested against \<open>None\<close>: the key is
  absent, or bound to \<open>None\<close>, or bound to a number.
\<close>

datatype field_val = Absent | Null | Val real

fun float_or :: "field_val \<Rightarrow> real \<Rightarrow> real" where
  "float_or (Val x) d = x"
| "float_or v d = d"

text \<open>
  One entry of the market snapshot. \<open>spot_ticker_last\<close> is
  \<open>data.get('spot_ticker', {}).get('last', 0)\<close> before its default is applied; the signal
  dictionaries default to the empty dictionary; \<open>None\<close> for an indicator bundle is the
  absent or empty dictionary, which the code treats alike.
\<close>

record indicator_summary =
  rsi_current :: field_val

record symbol_data =
  spot_ticker_last :: field_val
  futures_ticker_last :: field_val
  spot_signals :: "(string \<times> real) list"
  futures_signals :: "(string \<times> real) list"
  spot_indicators :: "indicator_summary option"
  futures_indicators :: "indicator_summary option"

record spot_position =
  sp_side :: "string option"
  sp_size :: "real option"

record arbitrage_opp =
  arb_symbol :: string
  arb_premium :: real
  arb_spot_price :: real
  arb_futures_price :: real
  arb_opportunity_type :: string
  arb_expected_profit :: real
  arb_confidence :: real

record trend_opp =
  trend_symbol :: string
  trend_direction :: string
  trend_spot_strength :: real
  trend_futures_strength :: real
  trend_confidence :: real

record hedge_opp =
  hedge_symbol :: string
  hedge_type :: string
  hedge_spot_position :: spot_position
  hedge_futures_strength :: real
  hedge_confidence :: real

record momentum_opp =
  mom_symbol :: string
  mom_type :: string
  mom_spot_rsi :: real
  mom_futures_rsi :: real
  mom_confidence :: real

record opportunities =
  arbitrage :: "arbitrage_opp list"
  trend_following :: "trend_opp list"
  hedging :: "hedge_opp list"
  momentum :: "momentum_opp list"

record strategy =
  spot_allocation :: real
  futures_allocation :: real
  arbitrage_threshold :: real
  rebalance_threshold :: real
  rebalance_interval_minutes :: real
  auto_transfer_enabled :: bool
  current_positions_spot :: "(string \<times> spot_position) list"
  last_rebalance :: real

record portfolio_state =
  total_balance :: "real option"
  spot_balance :: "real option"
  futures_balance :: "real option"
  spot_free_balance :: "real option"
  futures_free_balance :: "real option"

record signal =
  sig_strategy :: string
  sig_symbol :: string
  sig_exchange_type :: string
  sig_action :: string
  sig_size :: real
  sig_confidence :: real
  sig_expected_return :: "real option"
  priority :: nat

definition futures_supported_symbols :: "string list" where
  "futures_supported_symbols =
     [''BTC/USDT'', ''ETH/USDT'', ''BNB/USDT'', ''XRP/USDT'', ''SOL/USDT'', ''ADA/USDT'',
      ''AVAX/USDT'', ''LINK/USDT'', ''TRX/USDT'']"

definition futures_symbol_mapping :: "(string \<times> string) list" where
  "futures_symbol_mapping =
     [(''BTC/USDT'', ''BTC/USDT:USDT''), (''ETH/USDT'', ''ETH/USDT:USDT''),
      (''BNB/USDT'', ''BNB/USDT:USDT''), (''XRP/USDT'', ''XRP/USDT:USDT''),
      (''SOL/USDT'', ''SOL/USDT:USDT''), (''ADA/USDT'', ''ADA/USDT:USDT''),
      (''AVAX/USDT'', ''AVAX/USDT:USDT''), (''LINK/USDT'', ''LINK/USDT:USDT''),
      (''TRX/USDT'', ''TRX/USDT:USDT'')]"

definition empty_opportunities :: opportunities where
  "empty_opportunities = \<lparr>arbitrage = [], trend_following = [], hedging = [], momentum = []\<rparr>"

subsection \<open>Opportunity detection\<close>

text \<open>
  The arbitrage part of one loop iteration. The prices are positive here, so the premium's
  division is defined; the confidence divides by the configured threshold and raises when
  that is zero.
\<close>

definition arbitrage_part ::
  "strategy \<Rightarrow> string \<Rightarrow> real \<Rightarrow> real \<Rightarrow> opportunities \<Rightarrow> py_error + opportunities" where
  "arbitrage_part st symbol spot_price futures_price opps =
     (let premium = (futures_price - spot_price) / spot_price in
      if \<bar>premium\<bar> > arbitrage_threshold st then
        (case py_div \<bar>premium\<bar> (arbitrage_threshold st) of
           Inl e \<Rightarrow> Inl e
         | Inr ratio \<Rightarrow>
             Inr (opps\<lparr>arbitrage := arbitrage opps @
                    [\<lparr>arb_symbol = symbol, arb_premium = premium, arb_spot_price = spot_price,
                      arb_futures_price = futures_price,
                      arb_opportunity_type = (if premium > 0 then ''long_spot_short_futures''
                                              else ''short_spot_long_futures''),
                      arb_expected_profit = \<bar>premium\<bar>,
                      arb_confidence = min ratio 1\<rparr>]\<rparr>))
      else Inr opps)"

definition signal_strengths :: "symbol_data \<Rightarrow> real \<times> real" where
  "signal_strengths data =
     (if spot_signals data \<noteq> [] \<and> futures_signals data \<noteq> []
      then (dict_get (map_of (spot_signals data) ''combined_signal'') 0,
            dict_get (map_of (futures_signals data) ''combined_signal'') 0)
      else (0, 0))"

definition trend_part :: "string \<Rightarrow> symbol_data \<Rightarrow> opportunities \<Rightarrow> opportunities" where
  "trend_part symbol data opps =
     (let (spot_strength, futures_strength) = signal_strengths data in
      if spot_signals data \<noteq> [] \<and> futures_signals data \<noteq> [] \<and>
         \<bar>spot_strength\<bar> > 0.1 \<and> \<bar>futures_strength\<bar> > 0.1 \<and>
         ((spot_strength > 0 \<and> futures_strength > 0) \<or> (spot_strength < 0 \<and> futures_strength < 0))
      then opps\<lparr>trend_following := trend_following opps @
             [\<lparr>trend_symbol = symbol,
               trend_direction = (if spot_strength > 0 then ''bullish'' else ''bearish''),
               trend_spot_strength = spot_strength, trend_futures_strength = futures_strength,
               trend_confidence = (\<bar>spot_strength\<bar> + \<bar>futures_strength\<bar>) / 2\<rparr>]\<rparr>
      else opps)"

text \<open>
  The hedging part tests that the stored position dictionary is not empty and then that
  its side is \<open>'buy'\<close> or \<open>'sell'\<close>; an empty dictionary has no side, so the second test
  subsumes the first.
\<close>

definition hedging_part :: "strategy \<Rightarrow> string \<Rightarrow> symbol_data \<Rightarrow> opportunities \<Rightarrow> opportunities" where
  "hedging_part st symbol data opps =
     (let futures_strength = snd (signal_strengths data) in
      case map_of (current_positions_spot st) symbol of
        None \<Rightarrow> opps
      | Some current_spot_position \<Rightarrow>
          if \<bar>futures_strength\<bar> > 0.2 \<and>
             ((sp_side current_spot_position = Some ''buy'' \<and> futures_strength < - 0.2) \<or>
              (sp_side current_spot_position = Some ''sell'' \<and> futures_strength > 0.2))
          then opps\<lparr>hedging := hedging opps @
                 [\<lparr>hedge_symbol = symbol,
                   hedge_type = (if sp_side current_spot_position = Some ''buy''
                                 then ''protective_short'' else ''protective_long''),
                   hedge_spot_position = current_spot_position,
                   hedge_futures_strength = futures_strength,
                   hedge_confidence = \<bar>futures_strength\<bar>\<rparr>]\<rparr>
          else opps)"

definition momentum_part :: "string \<Rightarrow> symbol_data \<Rightarrow> opportunities \<Rightarrow> opportunities" where
  "momentum_part symbol data opps =
     (case (spot_indicators data, futures_indicators data) of
        (Some si, Some fi) \<Rightarrow>
          (let spot_rsi = float_or (rsi_current si) 50;
               futures_rsi = float_or (rsi_current fi) 50
           in if (spot_rsi < 40 \<and> futures_rsi < 40) \<or> (spot_rsi > 60 \<and> futures_rsi > 60)
              then opps\<lparr>momentum := momentum opps @
                     [\<lparr>mom_symbol = symbol,
                       mom_type = (if spot_rsi < 30 then ''oversold_bounce''
                                   else ''overbought_correction''),
                       mom_spot_rsi = spot_rsi, mom_futures_rsi = futures_rsi,
                       mom_confidence = \<bar>50 - spot_rsi\<bar> / 50\<rparr>]\<rparr>
              else opps)
      | _ \<Rightarrow> opps)"

definition analyze_symbol ::
  "strategy \<Rightarrow> string \<times> symbol_data \<Rightarrow> opportunities \<Rightarrow> py_error + opportunities" where
  "analyze_symbol st entry opps =
     (let symbol = fst entry; data = snd entry;
          spot_price = float_or (spot_ticker_last data) 0;
          futures_price = float_or (futures_ticker_last data) 0
      in if spot_price \<le> 0 \<or> futures_price \<le> 0 then Inr opps
         else (case arbitrage_part st symbol spot_price futures_price opps of
                 Inl e \<Rightarrow> Inl e
               | Inr opps1 \<Rightarrow>
                   Inr (momentum_part symbol data
                          (hedging_part st symbol data (trend_part symbol data opps1)))))"

fun analyze_loop ::
  "strategy \<Rightarrow> (string \<times> symbol_data) list \<Rightarrow> opportunities \<Rightarrow> py_error + opportunities" where
  "analyze_loop st [] opps = Inr opps"
| "analyze_loop st (entry # rest) opps =
     (case analyze_symbol st entry opps of
        Inl e \<Rightarrow> Inl e
      | Inr opps' \<Rightarrow> analyze_loop st rest opps')"

definition analyze_market_opportunity ::
  "strategy \<Rightarrow> (string \<times> symbol_data) list \<Rightarrow> opportunities" where
  "analyze_market_opportunity st market_data =
     (case analyze_loop st market_data empty_opportunities of
        Inl e \<Rightarrow> empty_opportunities
      | Inr opps \<Rightarrow> opps)"

subsection \<open>Safe quantity\<close>

text \<open>
  Python's \<open>round(x, n)\<close> rounds to the nearest multiple of \<open>10\<^sup>-\<^sup>n\<close>, a tie going to
  the even neighbour.
\<close>

definition round_half_even :: "real \<Rightarrow> int" where
  "round_half_even x =
     (let f = \<lfloor>x\<rfloor>; d = x - of_int f in
      if d < 1 / 2 then f else if d > 1 / 2 then f + 1 else if even f then f else f + 1)"

definition py_round :: "real \<Rightarrow> nat \<Rightarrow> real" where
  "py_round x n = of_int (round_half_even (x * 10 ^ n)) / 10 ^ n"

definition min_quantities :: "(string \<times> real) list" where
  "min_quantities =
     [(''BTC/USDT'', 0.00001), (''ETH/USDT'', 0.0001), (''BNB/USDT'', 0.001),
      (''XRP/USDT'', 0.1), (''SOL/USDT'', 0.001), (''ADA/USDT'', 0.1),
      (''AVAX/USDT'', 0.01), (''LINK/USDT'', 0.01), (''DOT/USDT'', 0.01),
      (''MATIC/USDT'', 0.1), (''TRX/USDT'', 1.0)]"

definition quantity_decimals :: "string \<Rightarrow> nat" where
  "quantity_decimals symbol =
     (if symbol \<in> set [''BTC/USDT''] then 5
      else if symbol \<in> set [''ETH/USDT'', ''BNB/USDT'', ''SOL/USDT''] then 4
      else if symbol \<in> set [''AVAX/USDT'', ''LINK/USDT'', ''DOT/USDT''] then 3
      else if symbol \<in> set [''ADA/USDT'', ''XRP/USDT'', ''MATIC/USDT''] then 2
      else 3)"

definition calculate_safe_quantity :: "string \<Rightarrow> real \<Rightarrow> real \<Rightarrow> string \<Rightarrow> real" where
  "calculate_safe_quantity symbol max_amount price exchange_type =
     (if price \<le> 0 \<or> max_amount \<le> 0 then 0
      else
        (let min_notional = 5;
             min_quantity = dict_get (map_of min_quantities symbol) 0.001;
             max_quantity = max_amount / price
         in if max_quantity < min_quantity then 0
            else
              (let calculated_notional = max_quantity * price in
               if calculated_notional < min_notional then 0
               else
                 (let safe_quantity = max min_quantity max_quantity
                  in py_round safe_quantity (quantity_decimals symbol)))))"

subsection \<open>Rebalancing check\<close>

text \<open>
  \<open>check_rebalancing_needed\<close>; \<open>now\<close> is the value of \<open>datetime.now()\<close>, in seconds like
  \<open>last_rebalance\<close>. Past the balance guard the total is above 100, so the two ratios
  divide by a nonzero number.
\<close>

definition check_rebalancing_needed :: "strategy \<Rightarrow> portfolio_state \<Rightarrow> real \<Rightarrow> bool" where
  "check_rebalancing_needed st ps now =
     (let total = dict_get (total_balance ps) 0;
          spot_usdt = dict_get (spot_balance ps) 0;
          futures_usdt = dict_get (futures_balance ps) 0
      in if total \<le> 100 then False
         else
           (let current_spot_ratio = spot_usdt / total;
                current_futures_ratio = futures_usdt / total;
                spot_deviation = \<bar>current_spot_ratio - spot_allocation st\<bar>;
                futures_deviation = \<bar>current_futures_ratio - futures_allocation st\<bar>;
                time_passed = now - last_rebalance st;
                time_threshold = 60 * rebalance_interval_minutes st;
                adjusted_threshold = (if auto_transfer_enabled st then rebalance_threshold st
                                      else rebalance_threshold st * 2);
                min_balance_for_rebalancing = (if auto_transfer_enabled st then 20 else 200 :: real)
            in ((spot_deviation > adjusted_threshold \<or> futures_deviation > adjusted_threshold) \<and>
                total \<ge> min_balance_for_rebalancing) \<or>
               (time_passed > time_threshold \<and>
                spot_deviation > rebalance_threshold st * 0.5)))"

subsection \<open>Signal generation\<close>

text \<open>
  A \<open>for\<close> loop whose body may raise: the first exception ends the loop and is handed
  to the enclosing handler.
\<close>

fun for_each :: "('a \<Rightarrow> 's \<Rightarrow> py_error + 's) \<Rightarrow> 'a list \<Rightarrow> 's \<Rightarrow> py_error + 's" where
  "for_each body [] s = Inr s"
| "for_each body (x # xs) s =
     (case body x s of Inl e \<Rightarrow> Inl e | Inr s' \<Rightarrow> for_each body xs s')"

definition py_or :: "py_error + bool \<Rightarrow> py_error + bool \<Rightarrow> py_error + bool" where
  "py_or a b = (case a of Inl e \<Rightarrow> Inl e | Inr x \<Rightarrow> if x then Inr True else b)"

text \<open>\<open>x <= 0\<close> for a value read with default 0: \<open>None <= 0\<close> raises \<open>TypeError\<close>.\<close>

fun le_zero :: "field_val \<Rightarrow> py_error + bool" where
  "le_zero Absent = Inr True"
| "le_zero Null = Inl TypeError"
| "le_zero (Val x) = Inr (x \<le> 0)"

text \<open>
  \<open>market_data.get(symbol, {}) if market_data else {}\<close> followed by
  \<open>.get(ticker, {}).get('last', 0)\<close>; the parameter \<open>market_data\<close> defaults to \<open>None\<close>.
\<close>

definition ticker_last ::
  "(string \<times> symbol_data) list option \<Rightarrow> string \<Rightarrow> (symbol_data \<Rightarrow> field_val) \<Rightarrow> field_val" where
  "ticker_last market_data symbol ticker =
     (case market_data of
        None \<Rightarrow> Absent
      | Some md \<Rightarrow> (case map_of md symbol of None \<Rightarrow> Absent | Some d \<Rightarrow> ticker d))"

definition futures_symbol_of :: "string \<Rightarrow> string" where
  "futures_symbol_of symbol = dict_get (map_of futures_symbol_mapping symbol) symbol"

definition mk_signal ::
  "string \<Rightarrow> string \<Rightarrow> string \<Rightarrow> string \<Rightarrow> real \<Rightarrow> real \<Rightarrow> real option \<Rightarrow> nat \<Rightarrow> signal" where
  "mk_signal strat symbol exchange_type action sz confidence expected_return prio =
     \<lparr>sig_strategy = strat, sig_symbol = symbol, sig_exchange_type = exchange_type,
      sig_action = action, sig_size = sz, sig_confidence = confidence,
      sig_expected_return = expected_return, priority = prio\<rparr>"

text \<open>
  The arbitrage loop. The locals \<open>spot_quantity\<close> and \<open>futures_quantity\<close> are assigned
  together in the branch \<open>confidence >= 0.25\<close>; the signals are built in the \<open>else\<close>
  branch of that test, from whatever an earlier iteration left in the two locals. The
  state of the loop is the signal list and the pair of locals, \<open>None\<close> while unassigned;
  reading them unassigned raises.
\<close>

definition arbitrage_step ::
  "real \<Rightarrow> real \<Rightarrow> arbitrage_opp \<Rightarrow> signal list \<times> (real \<times> real) option \<Rightarrow>
   py_error + signal list \<times> (real \<times> real) option" where
  "arbitrage_step spot_free futures_free arb state =
     (let signals = fst state; quantities = snd state in
      if arb_confidence arb \<ge> 0.25 then
        (let max_spot_amount = (if spot_free < 5 then 0 else min (spot_free * 0.8) 100);
             max_futures_amount = (if futures_free < 5 then 0 else min (futures_free * 0.8) 100);
             min_trade_amount = 5
         in if max_spot_amount < min_trade_amount \<and> max_futures_amount < min_trade_amount
            then Inr (signals, quantities)
            else
              (let spot_quantity =
                     calculate_safe_quantity (arb_symbol arb) max_spot_amount (arb_spot_price arb) ''spot'';
                   futures_quantity =
                     calculate_safe_quantity (arb_symbol arb) max_futures_amount
                       (arb_futures_price arb) ''futures''
               in Inr (signals, Some (spot_quantity, futures_quantity))))
      else
        (case quantities of
           None \<Rightarrow> Inl NameError
         | Some (spot_quantity, futures_quantity) \<Rightarrow>
             if arb_symbol arb \<in> set futures_supported_symbols then
               (let futures_symbol = futures_symbol_of (arb_symbol arb) in
                if arb_opportunity_type arb = ''long_spot_short_futures'' then
                  Inr (signals @
                       [mk_signal ''arbitrage'' (arb_symbol arb) ''spot'' ''buy'' spot_quantity
                          (arb_confidence arb) (Some (arb_expected_profit arb)) 1,
                        mk_signal ''arbitrage'' futures_symbol ''futures'' ''sell'' futures_quantity
                          (arb_confidence arb) (Some (arb_expected_profit arb)) 1],
                       quantities)
                else
                  Inr (signals @
                       [mk_signal ''arbitrage'' (arb_symbol arb) ''spot'' ''sell'' spot_quantity
                          (arb_confidence arb) (Some (arb_expected_profit arb)) 1,
                        mk_signal ''arbitrage'' futures_symbol ''futures'' ''buy'' futures_quantity
                          (arb_confidence arb) (Some (arb_expected_profit arb)) 1],
                       quantities))
             else
               Inr (signals @
                    [mk_signal ''arbitrage_spot_only'' (arb_symbol arb) ''spot''
                       (if arb_opportunity_type arb = ''long_spot_short_futures''
                        then ''buy'' else ''sell'')
                       spot_quantity (arb_confidence arb) (Some (arb_expected_profit arb)) 1],
                    quantities)))"

definition trend_step ::
  "real \<Rightarrow> real \<Rightarrow> (string \<times> symbol_data) list option \<Rightarrow> trend_opp \<Rightarrow> signal list \<Rightarrow>
   py_error + signal list" where
  "trend_step spot_free futures_free market_data trend signals =
     (if trend_confidence trend \<ge> 0.25 then
        (let spot_price = ticker_last market_data (trend_symbol trend) spot_ticker_last;
             futures_price = ticker_last market_data (trend_symbol trend) futures_ticker_last
         in case py_or (le_zero spot_price) (le_zero futures_price) of
              Inl e \<Rightarrow> Inl e
            | Inr skip \<Rightarrow>
                if skip then Inr signals
                else
                  (let max_spot_amount = spot_free * 0.03;
                       max_futures_amount = futures_free * 0.03;
                       min_trade_amount = 5
                   in if max_spot_amount < min_trade_amount \<and> max_futures_amount < min_trade_amount
                      then Inr signals
                      else
                        (let spot_size =
                               calculate_safe_quantity (trend_symbol trend) max_spot_amount
                                 (float_or spot_price 0) ''spot'';
                             futures_size =
                               calculate_safe_quantity (trend_symbol trend) max_futures_amount
                                 (float_or futures_price 0) ''futures''
                         in if spot_size \<le> 0 then Inr signals
                            else
                              (let action = (if trend_direction trend = ''bullish''
                                             then ''buy'' else ''sell'')
                               in if action = ''sell'' then Inr signals
                                  else
                                    Inr (signals @
                                         [mk_signal ''trend_following'' (trend_symbol trend) ''spot''
                                            action spot_size (trend_confidence trend) None 2] @
                                         (if trend_symbol trend \<in> set futures_supported_symbols \<and>
                                             futures_size > 0
                                          then [mk_signal ''trend_following''
                                                  (futures_symbol_of (trend_symbol trend)) ''futures''
                                                  action futures_size (trend_confidence trend) None 2]
                                          else []))))))
      else Inr signals)"

definition hedging_step :: "hedge_opp \<Rightarrow> signal list \<Rightarrow> signal list" where
  "hedging_step hedge signals =
     (if hedge_confidence hedge > 0.4 then
        (let position = hedge_spot_position hedge;
             hedge_size = dict_get (sp_size position) 0 * 0.8;
             hedge_action = (if hedge_type hedge = ''protective_short'' then ''sell'' else ''buy'')
         in signals @
            [mk_signal ''hedging'' (hedge_symbol hedge) ''futures'' hedge_action hedge_size
               (hedge_confidence hedge) None 3])
      else signals)"

definition momentum_step ::
  "real \<Rightarrow> real \<Rightarrow> (string \<times> symbol_data) list option \<Rightarrow> momentum_opp \<Rightarrow> signal list \<Rightarrow>
   py_error + signal list" where
  "momentum_step spot_free futures_free market_data mom signals =
     (if mom_confidence mom > 0.5 then
        (let current_price = ticker_last market_data (mom_symbol mom) spot_ticker_last in
         case le_zero current_price of
           Inl e \<Rightarrow> Inl e
         | Inr skip \<Rightarrow>
             if skip then Inr signals
             else
               (let max_momentum_amount = min spot_free futures_free * 0.02;
                    price = float_or current_price 0
                in if max_momentum_amount < 10 then Inr signals
                   else if mom_type mom = ''oversold_bounce'' then
                     (let spot_quantity =
                            calculate_safe_quantity (mom_symbol mom) max_momentum_amount price ''spot'';
                          futures_quantity =
                            calculate_safe_quantity (mom_symbol mom) max_momentum_amount price
                              ''futures''
                      in Inr (signals @
                              (if spot_quantity > 0
                               then [mk_signal ''momentum'' (mom_symbol mom) ''spot'' ''buy''
                                       spot_quantity (mom_confidence mom) None 4]
                               else []) @
                              (if futures_quantity > 0 \<and>
                                  mom_symbol mom \<in> set futures_supported_symbols
                               then [mk_signal ''momentum'' (futures_symbol_of (mom_symbol mom))
                                       ''futures'' ''buy'' futures_quantity (mom_confidence mom)
                                       None 4]
                               else [])))
                   else if mom_symbol mom \<in> set futures_supported_symbols then
                     (let futures_quantity =
                            calculate_safe_quantity (mom_symbol mom) max_momentum_amount price
                              ''futures''
                      in Inr (signals @
                              (if futures_quantity > 0
                               then [mk_signal ''momentum'' (futures_symbol_of (mom_symbol mom))
                                       ''futures'' ''sell'' futures_quantity (mom_confidence mom)
                                       None 4]
                               else [])))
                   else Inr signals))
      else Inr signals)"

text \<open>
  \<open>sorted(xs, key=k, reverse=True)\<close> is a stable sort in descending key order, which is
  the stable ascending sort on the negated key. \<open>signals.sort(key=...)\<close> is stable and
  ascending, and \<open>signals[:10]\<close> keeps the first ten.
\<close>

definition sorted_desc :: "('a \<Rightarrow> real) \<Rightarrow> 'a list \<Rightarrow> 'a list" where
  "sorted_desc k xs = sort_key (\<lambda>x. - k x) xs"

definition generate_portfolio_signals_body ::
  "opportunities \<Rightarrow> portfolio_state \<Rightarrow> (string \<times> symbol_data) list option \<Rightarrow>
   py_error + signal list" where
  "generate_portfolio_signals_body opps ps market_data =
     (let spot_free = dict_get (spot_free_balance ps) 0;
          futures_free = dict_get (futures_free_balance ps) 0
      in if spot_free < 5 \<and> futures_free < 5 then Inr []
         else
           (case for_each (arbitrage_step spot_free futures_free)
                   (sorted_desc arb_expected_profit (arbitrage opps)) ([], None) of
              Inl e \<Rightarrow> Inl e
            | Inr after_arbitrage \<Rightarrow>
                (case for_each (trend_step spot_free futures_free market_data)
                        (sorted_desc trend_confidence (trend_following opps))
                        (fst after_arbitrage) of
                   Inl e \<Rightarrow> Inl e
                 | Inr after_trend \<Rightarrow>
                     (let after_hedging = fold hedging_step (hedging opps) after_trend in
                      case for_each (momentum_step spot_free futures_free market_data)
                             (sorted_desc mom_confidence (momentum opps)) after_hedging of
                        Inl e \<Rightarrow> Inl e
                      | Inr signals \<Rightarrow> Inr (take 10 (sort_key priority signals))))))"

definition generate_portfolio_signals ::
  "opportunities \<Rightarrow> portfolio_state \<Rightarrow> (string \<times> symbol_data) list option \<Rightarrow> signal list" where
  "generate_portfolio_signals opps ps market_data =
     (case generate_portfolio_signals_body opps ps market_data of
        Inl e \<Rightarrow> []
      | Inr signals \<Rightarrow> signals)"

section \<open>Concrete states used in the examples\<close>



definition empty_manager :: risk_manager where
  "empty_manager =
     \<lparr>max_position_size = 0.2, risk_per_trade = 0.02, positions = [], risk_alerts = []\<rparr>"


definition default_strategy :: strategy where
  "default_strategy =
     \<lparr>spot_allocation = 0.4, futures_allocation = 0.6, arbitrage_threshold = 0.0005,
      rebalance_threshold = 0.03, rebalance_interval_minutes = 15,
      auto_transfer_enabled = True, current_positions_spot = [], last_rebalance = 0\<rparr>"


definition trending_conditions :: market_conditions where
  "trending_conditions =
     \<lparr>mc_volatility = Some 0.02, mc_regime = Some ''trending'', mc_liquidity = Some ''normal''\<rparr>"


definition default_analyzer :: technical_analyzer where
  "default_analyzer = \<lparr>rsi_oversold = 30, rsi_overbought = 70\<rparr>"

text \<open>
  An indicator bundle with an oversold RSI, a histogram crossing up, a Bollinger upper band
  that is NaN and no stochastic data; and one whose histogram holds an object that cannot
  be compared with a number.
\<close>

definition partial_indicators :: indicators where
  "partial_indicators =
     \<lparr>ind_rsi = Some [Num 45, Num 25],
      ind_macd = Some \<lparr>macd_histogram = Some [Num (- 1), Num 2]\<rparr>,
      ind_bb = Some \<lparr>bb_lower = Some [Num 90], bb_upper = Some [NaN], bb_middle = Some [Num 100]\<rparr>,
      ind_stoch = None\<rparr>"

definition raising_indicators :: indicators where
  "raising_indicators =
     \<lparr>ind_rsi = Some [Num 25],
      ind_macd = Some \<lparr>macd_histogram = Some [Num (- 1), Other]\<rparr>,
      ind_bb = None, ind_stoch = None\<rparr>"

text \<open>A bundle whose RSI and histogram values are numpy scalars that are not floats.\<close>

definition numpy_indicators :: indicators where
  "numpy_indicators =
     \<lparr>ind_rsi = Some [NpNum 25],
      ind_macd = Some \<lparr>macd_histogram = Some [NpNum (- 1), NpNum 2]\<rparr>,
      ind_bb = None, ind_stoch = None\<rparr>"

definition plain_ticker :: "real \<Rightarrow> real \<Rightarrow> symbol_data" where
  "plain_ticker s f =
     \<lparr>spot_ticker_last = Val s, futures_ticker_last = Val f, spot_signals = [],
      futures_signals = [], spot_indicators = None, futures_indicators = None\<rparr>"

definition sample_market :: "(string \<times> symbol_data) list" where
  "sample_market =
     [(''BTC/USDT'', plain_ticker 50000 50010), (''ETH/USDT'', plain_ticker 2000 2001)]"

definition sample_opportunities :: opportunities where
  "sample_opportunities =
     \<lparr>arbitrage =
        [\<lparr>arb_symbol = ''ETH/USDT'', arb_premium = 0.0001, arb_spot_price = 2000,
          arb_futures_price = 2000.2, arb_opportunity_type = ''long_spot_short_futures'',
          arb_expected_profit = 0.0001, arb_confidence = 0.2\<rparr>,
         \<lparr>arb_symbol = ''BTC/USDT'', arb_premium = 0.0002, arb_spot_price = 50000,
          arb_futures_price = 50010, arb_opportunity_type = ''long_spot_short_futures'',
          arb_expected_profit = 0.0002, arb_confidence = 0.4\<rparr>],
      trend_following =
        [\<lparr>trend_symbol = ''BTC/USDT'', trend_direction = ''bullish'',
          trend_spot_strength = 0.5, trend_futures_strength = 0.5, trend_confidence = 0.5\<rparr>],
      hedging =
        [\<lparr>hedge_symbol = ''BTC/USDT'', hedge_type = ''protective_short'',
          hedge_spot_position = \<lparr>sp_side = Some ''buy'', sp_size = Some 1\<rparr>,
          hedge_futures_strength = - 0.5, hedge_confidence = 0.5\<rparr>],
      momentum =
        [\<lparr>mom_symbol = ''ETH/USDT'', mom_type = ''oversold_bounce'', mom_spot_rsi = 20,
          mom_futures_rsi = 20, mom_confidence = 0.6\<rparr>]\<rparr>"

definition sample_portfolio :: portfolio_state where
  "sample_portfolio =
     \<lparr>total_balance = Some 2000, spot_balance = Some 1000, futures_balance = Some 1000,
      spot_free_balance = Some 1000, futures_free_balance = Some 1000\<rparr>"



section \<open>Notions used to state the properties\<close>







section \<open>The arbitrage rule as the specification words it\<close>

text \<open>
  The specification's arbitrage rule, for one snapshot entry: the premium is
  (futures - spot) / spot; an opportunity is recorded for valid (positive) prices when the
  premium's magnitude exceeds the threshold; its confidence is the smaller of
  |premium| / threshold and 1, its direction long-spot/short-futures for a positive
  premium and short-spot/long-futures otherwise. These definitions follow the
  specification, not the source, and are what the source is compared with.
\<close>

definition spec_premium :: "symbol_data \<Rightarrow> real" where
  "spec_premium data =
     (float_or (futures_ticker_last data) 0 - float_or (spot_ticker_last data) 0) /
     float_or (spot_ticker_last data) 0"

definition spec_arbitrage_recorded :: "strategy \<Rightarrow> symbol_data \<Rightarrow> bool" where
  "spec_arbitrage_recorded st data =
     (float_or (spot_ticker_last data) 0 > 0 \<and> float_or (futures_ticker_last data) 0 > 0 \<and>
      \<bar>spec_premium data\<bar> > arbitrage_threshold st)"


section \<open>Properties of the risk manager\<close>

subsection \<open>Automatic de-risking\<close>






lemma reduce_loop_length: "length (reduce_loop r ps) = length ps"
  by (induction ps) (auto split: sum.splits)







subsection \<open>Kelly fraction\<close>

lemma kelly_bounds:
  "0 \<le> calculate_dynamic_kelly symbol win_rate mc \<and>
   calculate_dynamic_kelly symbol win_rate mc \<le> 0.25"
  by (auto simp: calculate_dynamic_kelly_def regime_win_loss_def py_div_def Let_def
      split: option.splits)

text \<open>
  Claim C5: for every win rate in [0, 1] and every market conditions (any regime label, or
  none), the dynamic Kelly fraction lies in [0, 0.25]; for win rate 0.58 in the trending
  regime the unclamped value is 0.37 and the result is exactly 0.25.
\<close>

theorem calculate_dynamic_kelly_clamped:
  assumes "0 \<le> win_rate" and "win_rate \<le> 1"
  shows "0 \<le> calculate_dynamic_kelly symbol win_rate mc \<and>
         calculate_dynamic_kelly symbol win_rate mc \<le> 0.25 \<and>
         (0.58 * 0.18 - (1 - 0.58) * 0.09) / 0.18 = (0.37 :: real) \<and>
         calculate_dynamic_kelly symbol 0.58 (mc\<lparr>mc_regime := Some ''trending''\<rparr>) = 0.25"
proof -
  have "calculate_dynamic_kelly symbol 0.58 (mc\<lparr>mc_regime := Some ''trending''\<rparr>) = 0.25"
    by (simp add: calculate_dynamic_kelly_def regime_win_loss_def py_div_def)
  moreover have "(0.58 * 0.18 - (1 - 0.58) * 0.09) / 0.18 = (0.37 :: real)"
    by simp
  ultimately show ?thesis
    using kelly_bounds [of symbol win_rate mc] by simp
qed

theorem calculate_dynamic_kelly_clamped_witness:
  "(0::real) \<le> 0.58 \<and> (0.58::real) \<le> 1 \<and>
   calculate_dynamic_kelly ''BTC/USDT'' 0.58
     \<lparr>mc_volatility = Some 0.02, mc_regime = Some ''trending'', mc_liquidity = Some ''normal''\<rparr>
     = 0.25"
  using calculate_dynamic_kelly_clamped [of "0.58" "''BTC/USDT''"
      "\<lparr>mc_volatility = Some 0.02, mc_regime = Some ''trending'', mc_liquidity = Some ''normal''\<rparr>"]
  by simp

subsection \<open>Alert queue\<close>

text \<open>
  Claim C8: \<open>get_risk_alerts\<close> returns exactly the alerts accumulated before the call and
  leaves the queue empty, so a second immediate call returns the empty list.
\<close>

theorem get_risk_alerts_drains:
  "fst (get_risk_alerts rm) = risk_alerts rm \<and>
   risk_alerts (snd (get_risk_alerts rm)) = [] \<and>
   fst (get_risk_alerts (snd (get_risk_alerts rm))) = []"
  by (simp add: get_risk_alerts_def Let_def)

theorem get_risk_alerts_drains_witness:
  "map alert_type (fst (get_risk_alerts (emergency_stop empty_manager ''halt'' 0)))
     = [''emergency_stop''] \<and>
   fst (get_risk_alerts (snd (get_risk_alerts (emergency_stop empty_manager ''halt'' 0)))) = []"
  using get_risk_alerts_drains [of "emergency_stop empty_manager ''halt'' 0"]
  by (simp add: emergency_stop_def empty_manager_def)

subsection \<open>Adaptive position sizing\<close>








section \<open>Properties of the hybrid strategy\<close>

subsection \<open>Rebalancing check\<close>

text \<open>
  Claim C9: a portfolio state whose total balance is at most 100 (an absent key reads as
  0) never needs rebalancing, whatever the allocation and the time since the last
  rebalance.
\<close>

theorem check_rebalancing_needed_small_balance:
  assumes "dict_get (total_balance ps) 0 \<le> 100"
  shows "\<not> check_rebalancing_needed st ps now"
  using assms by (simp add: check_rebalancing_needed_def Let_def)

theorem check_rebalancing_needed_small_balance_witness:
  "dict_get (total_balance
      \<lparr>total_balance = Some 100, spot_balance = Some 100, futures_balance = Some 0,
       spot_free_balance = Some 100, futures_free_balance = Some 0\<rparr>) 0 \<le> 100 \<and>
   \<not> check_rebalancing_needed default_strategy
      \<lparr>total_balance = Some 100, spot_balance = Some 100, futures_balance = Some 0,
       spot_free_balance = Some 100, futures_free_balance = Some 0\<rparr> 86400"
  using check_rebalancing_needed_small_balance [of
      "\<lparr>total_balance = Some 100, spot_balance = Some 100, futures_balance = Some 0,
        spot_free_balance = Some 100, futures_free_balance = Some 0\<rparr>" default_strategy 86400]
  by (simp add: dict_get_def)

subsection \<open>Safe quantity\<close>

lemma round_half_even_error: "\<bar>of_int (round_half_even x) - x\<bar> \<le> 1 / 2"
proof -
  have "of_int \<lfloor>x\<rfloor> \<le> x" "x < of_int \<lfloor>x\<rfloor> + 1"
    by linarith+
  then show ?thesis
    by (auto simp: round_half_even_def Let_def)
qed

lemma py_round_error: "\<bar>py_round x n - x\<bar> \<le> 1 / (2 * 10 ^ n)"
proof -
  have "\<bar>py_round x n - x\<bar> = \<bar>of_int (round_half_even (x * 10 ^ n)) - x * 10 ^ n\<bar> / 10 ^ n"
    by (simp add: py_round_def field_simps abs_divide)
  also have "\<dots> \<le> (1 / 2) / 10 ^ n"
    by (intro divide_right_mono round_half_even_error) simp
  finally show ?thesis by simp
qed

text \<open>
  Claim C3 as stated (the precision is applied by rounding down, never up) fails: \<open>round\<close>
  rounds to the nearest. For an amount of 10 at price 15 and a symbol without a table
  entry (three decimals) the result 0.667 is above the affordable quantity 10/15, and its
  notional 10.005 is above the amount.
\<close>

theorem calculate_safe_quantity_rounds_up:
  "calculate_safe_quantity ''DOGE/USDT'' 10 15 ''spot'' = 0.667 \<and> (0.667 :: real) > 10 / 15 \<and>
   (0.667 :: real) * 15 > 10"
  by (simp add: calculate_safe_quantity_def min_quantities_def quantity_decimals_def dict_get_def
      py_round_def round_half_even_def Let_def)

text \<open>
  The minimum notional of 5 is tested on the quantity before it is rounded, so a quantity
  that rounding moves down can leave the function with a notional below 5: an amount of
  5.001 at price 7 passes the test and is returned as 0.714, worth 4.998.
\<close>

lemma calculate_safe_quantity_floor_before_rounding:
  "calculate_safe_quantity ''DOGE/USDT'' 5.001 7 ''spot'' = 0.714 \<and> (0.714 :: real) * 7 < 5"
  by (simp add: calculate_safe_quantity_def min_quantities_def quantity_decimals_def dict_get_def
      py_round_def round_half_even_def Let_def)

text \<open>
  Claim C3, amended: the result is exactly 0 when the price or the amount is not positive;
  otherwise it is either 0 or a multiple of the symbol's decimal unit that lies within
  half a unit of amount / price, above it or below it: the precision is applied by
  rounding to the nearest unit. Nothing is said here about the notional of a result that
  is not 0.
\<close>

theorem calculate_safe_quantity_nearest_unit:
  "(price \<le> 0 \<or> max_amount \<le> 0 \<longrightarrow> calculate_safe_quantity symbol max_amount price ex = 0) \<and>
   (calculate_safe_quantity symbol max_amount price ex = 0 \<or>
    (0 < price \<and> 0 < max_amount \<and>
     (\<exists>k :: int. calculate_safe_quantity symbol max_amount price ex =
                  of_int k / 10 ^ quantity_decimals symbol) \<and>
     \<bar>calculate_safe_quantity symbol max_amount price ex - max_amount / price\<bar>
       \<le> 1 / (2 * 10 ^ quantity_decimals symbol)))"
proof (cases "calculate_safe_quantity symbol max_amount price ex = 0")
  case True
  then show ?thesis by (simp add: calculate_safe_quantity_def)
next
  case False
  then have pos: "0 < price" "0 < max_amount"
    and q: "\<not> max_amount / price < dict_get (map_of min_quantities symbol) 0.001"
    and n: "\<not> max_amount / price * price < 5"
    by (auto simp: calculate_safe_quantity_def Let_def split: if_splits)
  from pos q n have eq: "calculate_safe_quantity symbol max_amount price ex =
       py_round (max_amount / price) (quantity_decimals symbol)"
    by (simp add: calculate_safe_quantity_def Let_def max_def)
  have "\<exists>k :: int. calculate_safe_quantity symbol max_amount price ex =
                  of_int k / 10 ^ quantity_decimals symbol"
    unfolding eq py_round_def by blast
  then show ?thesis
    using pos eq py_round_error [of "max_amount / price" "quantity_decimals symbol"]
    by simp
qed

theorem calculate_safe_quantity_nearest_unit_witness:
  "((0 :: real) \<le> 0 \<or> (100 :: real) \<le> 0) \<and>
   calculate_safe_quantity ''BTC/USDT'' 100 0 ''spot'' = 0 \<and>
   calculate_safe_quantity ''BTC/USDT'' 3 50000 ''spot'' = 0 \<and>
   calculate_safe_quantity ''BTC/USDT'' 100 30000 ''spot'' = 333 / 10 ^ 5 \<and>
   \<bar>333 / 10 ^ 5 - 100 / 30000\<bar> \<le> (1 :: real) / (2 * 10 ^ 5)"
  using calculate_safe_quantity_nearest_unit [of 0 100 "''BTC/USDT''" "''spot''"]
    calculate_safe_quantity_nearest_unit [of 50000 3 "''BTC/USDT''" "''spot''"]
    calculate_safe_quantity_nearest_unit [of 30000 100 "''BTC/USDT''" "''spot''"]
  by (simp add: calculate_safe_quantity_def min_quantities_def quantity_decimals_def dict_get_def
      py_round_def round_half_even_def Let_def)

subsection \<open>Arbitrage detection\<close>







text \<open>
  The threshold 0 is the one value for which the confidence min(|premium| / threshold, 1)
  of the rule is not defined. There the source divides by zero inside the loop, the
  handler around the loop catches the exception, and no opportunity is returned: spot 100
  and futures 101 leave the arbitrage list empty.
\<close>

lemma arbitrage_zero_threshold:
  "spec_arbitrage_recorded (default_strategy\<lparr>arbitrage_threshold := 0\<rparr>) (plain_ticker 100 101) \<and>
   arbitrage (analyze_market_opportunity (default_strategy\<lparr>arbitrage_threshold := 0\<rparr>)
      [(''BTC/USDT'', plain_ticker 100 101)]) = []"
  by (simp add: analyze_market_opportunity_def analyze_symbol_def arbitrage_part_def
      py_div_def plain_ticker_def empty_opportunities_def default_strategy_def
      spec_arbitrage_recorded_def spec_premium_def)



subsection \<open>Signal generation\<close>

text \<open>
  Claim C7: for every opportunities, portfolio state and market data, the returned list is
  sorted by priority in ascending order and holds at most 10 signals. The handler's and the
  early return's empty list satisfy both.
\<close>

theorem generate_portfolio_signals_sorted_bounded:
  "sorted (map priority (generate_portfolio_signals opps ps md)) \<and>
   length (generate_portfolio_signals opps ps md) \<le> 10"
proof (cases "generate_portfolio_signals_body opps ps md")
  case (Inl e)
  then show ?thesis by (simp add: generate_portfolio_signals_def)
next
  case (Inr signals)
  then have "signals = [] \<or> (\<exists>xs. signals = take 10 (sort_key priority xs))"
    by (auto simp: generate_portfolio_signals_body_def Let_def split: if_splits sum.splits)
  moreover have "sorted (map priority (take 10 (sort_key priority xs)))" for xs :: "signal list"
    by (simp add: take_map [symmetric] sorted_wrt_take)
  ultimately show ?thesis
    using Inr by (auto simp: generate_portfolio_signals_def)
qed

theorem generate_portfolio_signals_sorted_bounded_witness:
  "map priority (generate_portfolio_signals sample_opportunities sample_portfolio
     (Some sample_market)) = [1, 1, 2, 2, 3, 4, 4]"
  using generate_portfolio_signals_sorted_bounded
    [of sample_opportunities sample_portfolio "Some sample_market"]
  by code_simp

section \<open>Properties of the technical analyzer\<close>

subsection \<open>Signal generation\<close>

lemma combine_four:
  "combine_signals [(''rsi_signal'', Num a), (''macd_signal'', Num b),
                    (''bb_signal'', Num c), (''stoch_signal'', Num d)] =
   [(''rsi_signal'', Num a), (''macd_signal'', Num b), (''bb_signal'', Num c),
    (''stoch_signal'', Num d), (''combined_signal'', Num ((a + b + c + d) / 4))]"
  by (simp add: combine_signals_def endswith_def)

lemma rsi_signal_range: "rsi_signal_of ta ind \<in> {- 1, 0, 1}"
  by (simp add: rsi_signal_of_def Let_def split: option.splits)

lemma stoch_signal_range: "stoch_signal_of ind \<in> {- 1, 0, 1}"
  by (simp add: stoch_signal_of_def split: option.splits pyval.splits)

lemma macd_cross_range: "macd_cross x y = Inr v \<Longrightarrow> v \<in> {- 1, 0, 1}"
  by (auto simp: macd_cross_def split: if_splits sum.splits)

lemma macd_signal_range: "macd_signal_of ind = Inr v \<Longrightarrow> v \<in> {- 1, 0, 1}"
  by (auto simp: macd_signal_of_def split: option.splits if_splits dest: macd_cross_range)

lemma bb_touch_range: "bb_touch x y z = Inr v \<Longrightarrow> v \<in> {- 1, 0, 1}"
  by (auto simp: bb_touch_def split: if_splits sum.splits)

lemma bb_signal_range: "bb_signal_of ind = Inr v \<Longrightarrow> v \<in> {- 1, 0, 1}"
  by (auto simp: bb_signal_of_def Let_def split: option.splits if_splits dest: bb_touch_range)

lemma mean_of_four_signs:
  fixes a b c d :: real
  assumes "a \<in> {- 1, 0, 1}" "b \<in> {- 1, 0, 1}" "c \<in> {- 1, 0, 1}" "d \<in> {- 1, 0, 1}"
  shows "- 1 \<le> (a + b + c + d) / 4 \<and> (a + b + c + d) / 4 \<le> 1"
proof -
  have "\<bar>a\<bar> \<le> 1" "\<bar>b\<bar> \<le> 1" "\<bar>c\<bar> \<le> 1" "\<bar>d\<bar> \<le> 1"
    using assms by auto
  then show ?thesis by (simp add: abs_le_iff)
qed

lemma generate_signals_handler:
  "generate_signals default_analyzer raising_indicators =
     [(''rsi_signal'', Num 0), (''macd_signal'', Num 0), (''bb_signal'', Num 0),
      (''stoch_signal'', Num 0), (''combined_signal'', Num 0)]"
  by (simp add: generate_signals_def generate_signals_body_def rsi_signal_of_def
      macd_signal_of_def macd_cross_def py_and_def raising_indicators_def default_analyzer_def)

lemma generate_signals_numpy_scalars:
  "generate_signals default_analyzer numpy_indicators =
     [(''rsi_signal'', Num 0), (''macd_signal'', Num 1), (''bb_signal'', Num 0),
      (''stoch_signal'', Num 0), (''combined_signal'', Num (1 / 4))]"
  by (simp add: generate_signals_def generate_signals_body_def combine_four rsi_signal_of_def
      macd_signal_of_def macd_cross_def py_and_def bb_signal_of_def stoch_signal_of_def
      numpy_indicators_def default_analyzer_def)

text \<open>
  Claim C10: for every indicator bundle, \<open>generate_signals\<close> returns (an exception inside
  is caught and answered with the all-zero dictionary) a dictionary with exactly the keys
  rsi\_signal, macd\_signal, bb\_signal, stoch\_signal and combined\_signal, each bound to a
  number that is not NaN; the four indicator signals are -1, 0 or 1, and the combined
  signal is their arithmetic mean, hence in [-1, 1].
\<close>

theorem generate_signals_total:
  "\<exists>a b c d.
     generate_signals ta ind =
       [(''rsi_signal'', Num a), (''macd_signal'', Num b), (''bb_signal'', Num c),
        (''stoch_signal'', Num d), (''combined_signal'', Num ((a + b + c + d) / 4))] \<and>
     a \<in> {- 1, 0, 1} \<and> b \<in> {- 1, 0, 1} \<and> c \<in> {- 1, 0, 1} \<and> d \<in> {- 1, 0, 1} \<and>
     - 1 \<le> (a + b + c + d) / 4 \<and> (a + b + c + d) / 4 \<le> 1"
proof (cases "generate_signals_body ta ind")
  case (Inl e)
  then have "generate_signals ta ind =
       [(''rsi_signal'', Num 0), (''macd_signal'', Num 0), (''bb_signal'', Num 0),
        (''stoch_signal'', Num 0), (''combined_signal'', Num ((0 + 0 + 0 + 0) / 4))]"
    by (simp add: generate_signals_def)
  then show ?thesis by (intro exI [of _ 0]) simp
next
  case (Inr signals)
  then obtain b c where b: "macd_signal_of ind = Inr b" and c: "bb_signal_of ind = Inr c"
    and s: "signals = combine_signals
                [(''rsi_signal'', Num (rsi_signal_of ta ind)), (''macd_signal'', Num b),
                 (''bb_signal'', Num c), (''stoch_signal'', Num (stoch_signal_of ind))]"
    by (auto simp: generate_signals_body_def Let_def split: sum.splits)
  let ?a = "rsi_signal_of ta ind" and ?d = "stoch_signal_of ind"
  have eq: "generate_signals ta ind =
       [(''rsi_signal'', Num ?a), (''macd_signal'', Num b), (''bb_signal'', Num c),
        (''stoch_signal'', Num ?d), (''combined_signal'', Num ((?a + b + c + ?d) / 4))]"
    using Inr s by (simp add: generate_signals_def combine_four)
  have ranges: "?a \<in> {- 1, 0, 1}" "b \<in> {- 1, 0, 1}" "c \<in> {- 1, 0, 1}" "?d \<in> {- 1, 0, 1}"
    using rsi_signal_range macd_signal_range [OF b] bb_signal_range [OF c] stoch_signal_range
    by blast+
  from mean_of_four_signs [OF ranges] eq ranges show ?thesis by blast
qed

theorem generate_signals_total_witness:
  "generate_signals default_analyzer partial_indicators =
     [(''rsi_signal'', Num 1), (''macd_signal'', Num 1), (''bb_signal'', Num 0),
      (''stoch_signal'', Num 0), (''combined_signal'', Num (1 / 2))]"
  using generate_signals_total [of default_analyzer partial_indicators]
  by (simp add: generate_signals_def generate_signals_body_def combine_four rsi_signal_of_def
      macd_signal_of_def macd_cross_def py_and_def bb_signal_of_def bb_touch_def
      stoch_signal_of_def partial_indicators_def default_analyzer_def dict_get_def)

subsection \<open>Noise filter\<close>

text \<open>
  Claim C4 at the input where the source departs from it: the combined signal is 0.5, the
  history is 0.5, 0.5, -0.5, so two of the last three historical signals agree in sign
  with the combined signal. The ratio 2/3 is below the constant 0.67 that the source
  compares it with, and the score is 0.6; with all three agreeing it is 0.9.
\<close>

theorem apply_noise_filter_two_of_three:
  "apply_noise_filter [(''combined_signal'', 0.5)] \<lparr>signal_history = Some [0.5, 0.5, - 0.5]\<rparr>
     = 0.6 \<and>
   apply_noise_filter [(''combined_signal'', 0.5)] \<lparr>signal_history = Some [0.5, 0.5, 0.5]\<rparr>
     = 0.9"
  by (simp add: apply_noise_filter_def dict_get_def py_div_def)

end
